theory Spec2Isabelle
  imports Complex_Main
begin

section \<open>JavaScript values\<close>

text \<open>
  The worker is TypeScript, its numbers are JavaScript numbers. They are modelled as the
  real numbers extended with \<open>NaN\<close> and the two infinities; arithmetic and comparison
  follow IEEE 754 on these cases. Rounding and the sign of zero are not modelled: the
  engine only adds and subtracts millisecond counts, which doubles represent exactly.
\<close>

datatype jsnum = NaN | Fin real | PInf | NInf

fun jneg :: "jsnum \<Rightarrow> jsnum" where
  "jneg NaN = NaN"
| "jneg (Fin a) = Fin (- a)"
| "jneg PInf = NInf"
| "jneg NInf = PInf"

fun jadd :: "jsnum \<Rightarrow> jsnum \<Rightarrow> jsnum" where
  "jadd NaN _ = NaN"
| "jadd _ NaN = NaN"
| "jadd (Fin a) (Fin b) = Fin (a + b)"
| "jadd PInf NInf = NaN"
| "jadd NInf PInf = NaN"
| "jadd PInf _ = PInf"
| "jadd _ PInf = PInf"
| "jadd NInf _ = NInf"
| "jadd _ NInf = NInf"

definition jsub :: "jsnum \<Rightarrow> jsnum \<Rightarrow> jsnum" where
  "jsub a b = jadd a (jneg b)"

text \<open>The comparison \<open>a >= b\<close>: false as soon as one side is \<open>NaN\<close>.\<close>

fun jge :: "jsnum \<Rightarrow> jsnum \<Rightarrow> bool" where
  "jge NaN _ = False"
| "jge _ NaN = False"
| "jge (Fin a) (Fin b) = (b \<le> a)"
| "jge PInf _ = True"
| "jge _ NInf = True"
| "jge _ _ = False"

text \<open>\<open>a <= b\<close> is \<open>b >= a\<close> on every pair of numbers, \<open>NaN\<close> included.\<close>

definition jle :: "jsnum \<Rightarrow> jsnum \<Rightarrow> bool" where
  "jle a b = jge b a"

text \<open>
  The request body is whatever \<open>request.json()\<close> produced (\<open>body: any\<close>). An object is the
  list of its own properties, each key once; \<open>JUndefined\<close> is what reading an absent
  property gives.
\<close>

datatype jsval =
    JUndefined
  | JNull
  | JBool bool
  | JNum jsnum
  | JStr string
  | JArr "jsval list"
  | JObj "(string \<times> jsval) list"

text \<open>
  Reading a property. Only the names \<open>action\<close>, \<open>payload\<close>, \<open>label\<close>, \<open>durationMs\<close>,
  \<open>id\<close> and \<open>command\<close> are ever read; no prototype defines them, so a value without
  such an own property yields \<open>undefined\<close> (for \<open>null\<close> and \<open>undefined\<close> the source
  reads through \<open>?.\<close> or after \<open>?? {}\<close>).
\<close>

fun js_get :: "jsval \<Rightarrow> string \<Rightarrow> jsval" where
  "js_get (JObj kvs) k = (case map_of kvs k of Some v \<Rightarrow> v | None \<Rightarrow> JUndefined)"
| "js_get _ k = JUndefined"

text \<open>\<open>a ?? b\<close>\<close>

definition nullish :: "jsval \<Rightarrow> jsval \<Rightarrow> jsval" where
  "nullish a b = (if a = JUndefined \<or> a = JNull then b else a)"

text \<open>Truthiness, as \<open>||\<close> and \<open>!\<close> test it.\<close>

fun truthy :: "jsval \<Rightarrow> bool" where
  "truthy JUndefined = False"
| "truthy JNull = False"
| "truthy (JBool b) = b"
| "truthy (JNum n) = (n \<noteq> NaN \<and> n \<noteq> Fin 0)"
| "truthy (JStr s) = (s \<noteq> [])"
| "truthy (JArr _) = True"
| "truthy (JObj _) = True"

text \<open>\<open>a || b\<close>\<close>

definition js_or :: "jsval \<Rightarrow> jsval \<Rightarrow> jsval" where
  "js_or a b = (if truthy a then a else b)"

datatype error = TypeError | StoreError

text \<open>
  The built-ins of the platform that the source calls and whose results depend on text
  formats: they are parameters of the model.
  \<^item> \<open>toISOString ms\<close> is \<open>new Date(ms).toISOString()\<close>;
  \<^item> \<open>Date_parse s\<close> is \<open>Date.parse(s)\<close>, \<open>NaN\<close> for a string that is no date;
  \<^item> \<open>StringToNumber s\<close> is \<open>Number(s)\<close> for a string \<open>s\<close>;
  \<^item> \<open>NumberToString n\<close> is \<open>String(n)\<close> for a number \<open>n\<close>;
  \<^item> \<open>JSON_parse s\<close> is \<open>JSON.parse(s)\<close>, \<open>None\<close> when it throws.
\<close>

record builtins =
  toISOString :: "real \<Rightarrow> string"
  Date_parse :: "string \<Rightarrow> jsnum"
  StringToNumber :: "string \<Rightarrow> jsnum"
  NumberToString :: "jsnum \<Rightarrow> string"
  JSON_parse :: "string \<Rightarrow> jsval option"

text \<open>
  \<open>String(v)\<close> and \<open>Array.prototype.join\<close> (separator \<open>,\<close>), which \<open>Number\<close> reaches on
  an array. An object parsed from JSON has no callable property of its own: when it has
  an own property \<open>toString\<close>, the conversion finds no method that returns a primitive
  and throws a TypeError; otherwise \<open>Object.prototype.toString\<close> answers. \<open>join\<close> writes
  \<open>null\<close> and \<open>undefined\<close> elements as the empty string.
\<close>

fun ToString :: "builtins \<Rightarrow> jsval \<Rightarrow> error + string"
  and join :: "builtins \<Rightarrow> jsval list \<Rightarrow> error + string"
  where
  "ToString P JUndefined = Inr ''undefined''"
| "ToString P JNull = Inr ''null''"
| "ToString P (JBool b) = Inr (if b then ''true'' else ''false'')"
| "ToString P (JNum n) = Inr (NumberToString P n)"
| "ToString P (JStr s) = Inr s"
| "ToString P (JArr xs) = join P xs"
| "ToString P (JObj kvs) =
     (if map_of kvs ''toString'' \<noteq> None then Inl TypeError else Inr ''[object Object]'')"
| "join P [] = Inr []"
| "join P (x # xs) =
     (case (if x = JUndefined \<or> x = JNull then Inr [] else ToString P x) of
        Inl e \<Rightarrow> Inl e
      | Inr s \<Rightarrow>
          (if xs = [] then Inr s
           else (case join P xs of Inl e \<Rightarrow> Inl e | Inr r \<Rightarrow> Inr (s @ '','' @ r))))"

text \<open>
  \<open>Number(v)\<close>. An array or object is first converted to a primitive: \<open>valueOf\<close> returns
  the object itself, so \<open>toString\<close> decides, and its string is then read as a number.
\<close>

fun Number :: "builtins \<Rightarrow> jsval \<Rightarrow> error + jsnum" where
  "Number P JUndefined = Inr NaN"
| "Number P JNull = Inr (Fin 0)"
| "Number P (JBool b) = Inr (Fin (if b then 1 else 0))"
| "Number P (JNum n) = Inr n"
| "Number P (JStr s) = Inr (StringToNumber P s)"
| "Number P (JArr xs) =
     (case ToString P (JArr xs) of Inl e \<Rightarrow> Inl e | Inr s \<Rightarrow> Inr (StringToNumber P s))"
| "Number P (JObj kvs) =
     (case ToString P (JObj kvs) of Inl e \<Rightarrow> Inl e | Inr s \<Rightarrow> Inr (StringToNumber P s))"

section \<open>Data model\<close>

datatype tstate = idle | running | paused | finished

text \<open>
  \<open>interface Timer\<close>. The field \<open>id\<close> is \<open>id_t\<close> here. \<open>label\<close> holds what
  \<open>label || "Timer"\<close> evaluated to, which is the payload's value whenever that is truthy,
  of whatever type.
\<close>

record timer =
  id_t :: string
  label :: jsval
  durationMs :: jsnum
  state :: tstate
  createdAt :: string
  updatedAt :: string
  startedAt :: "string option"
  elapsedMs :: jsnum

record board =
  boardId :: string
  timers :: "timer list"

definition emptyBoard :: "string \<Rightarrow> board" where
  "emptyBoard bid = \<lparr>boardId = bid, timers = []\<rparr>"

definition boardKey :: "string \<Rightarrow> string" where
  "boardKey bid = ''board:'' @ bid"

section \<open>Timer logic\<close>

text \<open>
  \<open>effectiveElapsed(timer, nowMs)\<close>. The condition \<open>timer.startedAt\<close> holds of a string
  that is not empty.
\<close>

definition effectiveElapsed :: "builtins \<Rightarrow> timer \<Rightarrow> real \<Rightarrow> jsnum" where
  "effectiveElapsed P timer nowMs =
     (case startedAt timer of
        Some s \<Rightarrow>
          (if state timer = running \<and> s \<noteq> [] then
             (let started = Date_parse P s
              in jadd (elapsedMs timer) (jsub (Fin nowMs) started))
           else elapsedMs timer)
      | None \<Rightarrow> elapsedMs timer)"

text \<open>
  \<open>board.timers.find((t) => t.id === id)\<close>: the position of the first timer whose id is
  strictly equal to the payload's \<open>id\<close>, that is a string with the same characters. The
  source then mutates the object found, which is the element at that position.
\<close>

primrec findIndex :: "('a \<Rightarrow> bool) \<Rightarrow> 'a list \<Rightarrow> nat option" where
  "findIndex p [] = None"
| "findIndex p (x # xs) = (if p x then Some 0 else map_option Suc (findIndex p xs))"

text \<open>The three \<open>if (command === ...)\<close> statements and the auto-finish statement.\<close>

definition on_start :: "string \<Rightarrow> jsval \<Rightarrow> timer \<Rightarrow> timer" where
  "on_start nowIso command timer =
     (if command = JStr ''start'' then
        (if state timer = idle \<or> state timer = paused then
           timer\<lparr>startedAt := Some nowIso, state := running\<rparr>
         else timer)
      else timer)"

definition on_pause :: "builtins \<Rightarrow> real \<Rightarrow> jsval \<Rightarrow> timer \<Rightarrow> timer" where
  "on_pause P now command timer =
     (if command = JStr ''pause'' then
        (case startedAt timer of
           Some s \<Rightarrow>
             (if state timer = running \<and> s \<noteq> [] then
                (let started = Date_parse P s
                 in timer\<lparr>elapsedMs := jadd (elapsedMs timer) (jsub (Fin now) started),
                          startedAt := None, state := paused\<rparr>)
              else timer)
         | None \<Rightarrow> timer)
      else timer)"

definition on_reset :: "jsval \<Rightarrow> timer \<Rightarrow> timer" where
  "on_reset command timer =
     (if command = JStr ''reset'' then
        timer\<lparr>elapsedMs := Fin 0, startedAt := None, state := idle\<rparr>
      else timer)"

definition autoFinish :: "builtins \<Rightarrow> real \<Rightarrow> timer \<Rightarrow> timer" where
  "autoFinish P now timer =
     (let elapsed = effectiveElapsed P timer now
      in if jge elapsed (durationMs timer) then
           timer\<lparr>state := finished, startedAt := None, elapsedMs := durationMs timer\<rparr>
         else timer)"

text \<open>
  \<open>applyCommand(board, body)\<close>. \<open>now\<close> is the value \<open>Date.now()\<close> returned in this call and
  \<open>uuid\<close> the value of \<open>crypto.randomUUID()\<close>. The source mutates \<open>board\<close> and returns
  it; the model returns the new value. The one statement that can throw is
  \<open>Number(durationMs)\<close>, before anything is mutated.
\<close>

definition applyCommand :: "builtins \<Rightarrow> real \<Rightarrow> string \<Rightarrow> board \<Rightarrow> jsval \<Rightarrow> error + board" where
  "applyCommand P now uuid board body =
     (let nowIso = toISOString P now;
          action = js_get body ''action''
      in
        if action = JStr ''create'' then
          (let payload = nullish (js_get body ''payload'') (JObj []);
               label = js_get payload ''label'';
               durationMs = js_get payload ''durationMs''
           in case Number P durationMs of
                Inl e \<Rightarrow> Inl e
              | Inr n \<Rightarrow>
                  Inr (board\<lparr>timers := timers board @
                    [\<lparr>id_t = uuid,
                      label = js_or label (JStr ''Timer''),
                      durationMs = (if truthy (JNum n) then n else Fin 0),
                      state = idle,
                      createdAt = nowIso,
                      updatedAt = nowIso,
                      startedAt = None,
                      elapsedMs = Fin 0\<rparr>]\<rparr>))
        else if action = JStr ''command'' then
          (let payload = nullish (js_get body ''payload'') (JObj []);
               id = js_get payload ''id'';
               command = js_get payload ''command''
           in case findIndex (\<lambda>t. JStr (id_t t) = id) (timers board) of
                None \<Rightarrow> Inr board
              | Some i \<Rightarrow>
                  (let timer = timers board ! i;
                       timer = on_start nowIso command timer;
                       timer = on_pause P now command timer;
                       timer = on_reset command timer;
                       timer = autoFinish P now timer;
                       timer = timer\<lparr>updatedAt := nowIso\<rparr>
                   in Inr (board\<lparr>timers := (timers board)[i := timer]\<rparr>)))
        else if action = JStr ''delete'' then
          (let payload = nullish (js_get body ''payload'') (JObj []);
               id = js_get payload ''id''
           in Inr (board\<lparr>timers := filter (\<lambda>t. JStr (id_t t) \<noteq> id) (timers board)\<rparr>))
        else Inr board)"

section \<open>Storage\<close>

text \<open>
  \<open>env.TIMERS.get(key)\<close> resolves to the stored string or to \<open>null\<close>, or rejects; the
  rejection is not caught by \<open>loadBoard\<close>. \<open>loadBoard\<close> resolves either to a new empty
  board or to the parsed JSON, which the source casts to \<open>Board\<close> unchecked.
\<close>

datatype loaded = Fresh board | Stored jsval

definition loadBoard :: "builtins \<Rightarrow> (string \<Rightarrow> error + string option) \<Rightarrow> string \<Rightarrow> error + loaded" where
  "loadBoard P kv_get bid =
     (case kv_get (boardKey bid) of
        Inl e \<Rightarrow> Inl e
      | Inr raw \<Rightarrow>
          (case raw of
             None \<Rightarrow> Inr (Fresh (emptyBoard bid))
           | Some r \<Rightarrow>
               (if r = [] then Inr (Fresh (emptyBoard bid))
                else (case JSON_parse P r of
                        Some v \<Rightarrow> Inr (Stored v)
                      | None \<Rightarrow> Inr (Fresh (emptyBoard bid))))))"

section \<open>Vocabulary of the properties\<close>

text \<open>
  A body \<open>{action: "command", payload: {id, command}}\<close>, whatever else it carries.
\<close>

definition is_command :: "jsval \<Rightarrow> jsval \<Rightarrow> jsval \<Rightarrow> bool" where
  "is_command body ident command \<longleftrightarrow>
     js_get body ''action'' = JStr ''command'' \<and>
     js_get (js_get body ''payload'') ''id'' = ident \<and>
     js_get (js_get body ''payload'') ''command'' = command"

text \<open>
  The timer at position \<open>i\<close> is the one its id denotes: no timer before it carries the
  same id. Ids are unique identifiers in the data model, so this is every timer of a
  board whose ids are distinct; the engine itself does not deduplicate, and its
  linear scan stops at the first match.
\<close>

definition addressed :: "board \<Rightarrow> nat \<Rightarrow> bool" where
  "addressed b i \<longleftrightarrow>
     i < length (timers b) \<and> (\<forall>j<i. id_t (timers b ! j) \<noteq> id_t (timers b ! i))"

text \<open>
  What the command branch makes of the timer it found: the three \<open>if\<close> statements,
  the auto-finish statement and the assignment to \<open>updatedAt\<close>, in this order.
\<close>

definition commanded :: "builtins \<Rightarrow> real \<Rightarrow> jsval \<Rightarrow> timer \<Rightarrow> timer" where
  "commanded P now command timer =
     (autoFinish P now
        (on_reset command
          (on_pause P now command
            (on_start (toISOString P now) command timer))))\<lparr>updatedAt := toISOString P now\<rparr>"

text \<open>The boards that a sequence of \<open>applyCommand\<close> calls builds from an empty board.\<close>

inductive reachable :: "builtins \<Rightarrow> board \<Rightarrow> bool" for P :: builtins where
  reachable_empty: "reachable P (emptyBoard bid)"
| reachable_step:
    "reachable P b \<Longrightarrow> applyCommand P now uuid b body = Inr b' \<Longrightarrow> reachable P b'"

subsection \<open>Sample values\<close>

text \<open>
  Built-ins for the examples. The two date functions agree with the platform's at the
  three instants the examples use, 0 ms, 2000 ms and 6000 ms after the epoch, and on
  the ISO strings of these instants. No example converts between a string and a number
  other than the empty string, so these two conversions are placeholders.
\<close>

definition sample_toISOString :: "real \<Rightarrow> string" where
  "sample_toISOString ms =
     (if ms = 6000 then ''1970-01-01T00:00:06.000Z''
      else if ms = 2000 then ''1970-01-01T00:00:02.000Z''
      else ''1970-01-01T00:00:00.000Z'')"

definition sample_Date_parse :: "string \<Rightarrow> jsnum" where
  "sample_Date_parse s =
     (if s = ''1970-01-01T00:00:00.000Z'' then Fin 0
      else if s = ''1970-01-01T00:00:02.000Z'' then Fin 2000
      else if s = ''1970-01-01T00:00:06.000Z'' then Fin 6000
      else NaN)"

definition sample_JSON_parse :: "string \<Rightarrow> jsval option" where
  "sample_JSON_parse s = (if s = ''{}'' then Some (JObj []) else None)"

definition sample :: builtins where
  "sample =
     \<lparr>toISOString = sample_toISOString,
      Date_parse = sample_Date_parse,
      StringToNumber = (\<lambda>s. if s = [] then Fin 0 else NaN),
      NumberToString = (\<lambda>n. ''NaN''),
      JSON_parse = sample_JSON_parse\<rparr>"

text \<open>A timer \<open>Tea\<close> of 5000 ms, as \<open>create\<close> makes it at instant 0, and bodies for it.\<close>

definition tea :: timer where
  "tea =
     \<lparr>id_t = ''t1'', label = JStr ''Tea'', durationMs = Fin 5000, state = idle,
      createdAt = ''1970-01-01T00:00:00.000Z'', updatedAt = ''1970-01-01T00:00:00.000Z'',
      startedAt = None, elapsedMs = Fin 0\<rparr>"

definition tea_board :: board where
  "tea_board = \<lparr>boardId = ''kitchen'', timers = [tea]\<rparr>"

definition command_body :: "string \<Rightarrow> string \<Rightarrow> jsval" where
  "command_body ident command =
     JObj [(''action'', JStr ''command''),
           (''payload'', JObj [(''id'', JStr ident), (''command'', JStr command)])]"

definition create_body :: "jsval \<Rightarrow> jsval \<Rightarrow> jsval" where
  "create_body lbl dur =
     JObj [(''action'', JStr ''create''),
           (''payload'', JObj [(''label'', lbl), (''durationMs'', dur)])]"

definition tea_running :: timer where
  "tea_running = tea\<lparr>state := running, startedAt := Some ''1970-01-01T00:00:00.000Z''\<rparr>"

definition tea_running_board :: board where
  "tea_running_board = \<lparr>boardId = ''kitchen'', timers = [tea_running]\<rparr>"

definition tea_finished_board :: board where
  "tea_finished_board =
     \<lparr>boardId = ''kitchen'',
      timers = [tea\<lparr>state := finished, elapsedMs := Fin 5000, startedAt := None,
                    updatedAt := ''1970-01-01T00:00:06.000Z''\<rparr>]\<rparr>"

text \<open>A timer as \<open>create\<close> makes it from a payload without \<open>durationMs\<close>.\<close>

definition plain :: timer where
  "plain =
     \<lparr>id_t = ''t0'', label = JStr ''Timer'', durationMs = Fin 0, state = idle,
      createdAt = ''1970-01-01T00:00:00.000Z'', updatedAt = ''1970-01-01T00:00:00.000Z'',
      startedAt = None, elapsedMs = Fin 0\<rparr>"

definition plain_board :: board where
  "plain_board = \<lparr>boardId = ''kitchen'', timers = [plain]\<rparr>"

definition pair_board :: board where
  "pair_board = \<lparr>boardId = ''kitchen'', timers = [plain, tea]\<rparr>"

definition delete_body :: "string \<Rightarrow> jsval" where
  "delete_body ident =
     JObj [(''action'', JStr ''delete''), (''payload'', JObj [(''id'', JStr ident)])]"

section \<open>Basic facts\<close>

lemma js_get_nullish [simp]: "js_get (nullish x (JObj [])) k = js_get x k"
  by (cases x) (simp_all add: nullish_def)

lemma findIndex_Some:
  "findIndex p xs = Some i \<Longrightarrow> i < length xs \<and> p (xs ! i) \<and> (\<forall>j<i. \<not> p (xs ! j))"
proof (induction xs arbitrary: i)
  case Nil
  then show ?case by simp
next
  case (Cons x xs)
  show ?case
  proof (cases "p x")
    case True
    with Cons.prems show ?thesis by simp
  next
    case False
    with Cons.prems obtain k where k: "findIndex p xs = Some k" "i = Suc k"
      by auto
    from Cons.IH [OF k(1)] False k(2) show ?thesis
      by (auto simp: nth_Cons split: nat.splits)
  qed
qed

lemma findIndex_None: "findIndex p xs = None \<longleftrightarrow> (\<forall>x\<in>set xs. \<not> p x)"
  by (induction xs) auto

lemma findIndex_first:
  "i < length xs \<Longrightarrow> p (xs ! i) \<Longrightarrow> \<forall>j<i. \<not> p (xs ! j) \<Longrightarrow> findIndex p xs = Some i"
proof (induction xs arbitrary: i)
  case Nil
  then show ?case by simp
next
  case (Cons x xs)
  show ?case
  proof (cases i)
    case 0
    with Cons.prems show ?thesis by simp
  next
    case (Suc k)
    with Cons.prems have "\<not> p x" by auto
    moreover have "findIndex p xs = Some k"
      using Cons.prems Suc by (intro Cons.IH) auto
    ultimately show ?thesis using Suc by simp
  qed
qed

lemma distinct_addressed:
  assumes "distinct (map id_t (timers b))" and "i < length (timers b)"
  shows "addressed b i"
  unfolding addressed_def
proof (intro conjI allI impI)
  show "i < length (timers b)" by (rule assms(2))
next
  fix j assume "j < i"
  with assms(2) have j: "j < length (timers b)" by simp
  from nth_eq_iff_index_eq [OF assms(1), of j i] j assms(2) \<open>j < i\<close>
  show "id_t (timers b ! j) \<noteq> id_t (timers b ! i)"
    by simp
qed

lemma findIndex_addressed:
  "addressed b i \<Longrightarrow>
   findIndex (\<lambda>t. JStr (id_t t) = JStr (id_t (timers b ! i))) (timers b) = Some i"
  unfolding addressed_def by (intro findIndex_first) auto

text \<open>The command branch, once the scan has found position \<open>i\<close>, and when it finds none.\<close>

lemma applyCommand_command:
  assumes "js_get body ''action'' = JStr ''command''"
    and "findIndex (\<lambda>t. JStr (id_t t) = js_get (js_get body ''payload'') ''id'') (timers b) = Some i"
  shows "applyCommand P now uuid b body =
    Inr (b\<lparr>timers := (timers b)[i :=
      commanded P now (js_get (js_get body ''payload'') ''command'') (timers b ! i)]\<rparr>)"
  using assms by (simp add: applyCommand_def commanded_def Let_def)

lemma applyCommand_command_miss:
  assumes "js_get body ''action'' = JStr ''command''"
    and "findIndex (\<lambda>t. JStr (id_t t) = js_get (js_get body ''payload'') ''id'') (timers b) = None"
  shows "applyCommand P now uuid b body = Inr b"
  using assms by (simp add: applyCommand_def Let_def)

lemma on_pause_running:
  assumes "state t = running" "startedAt t = Some s" "s \<noteq> []"
  shows "on_pause P now (JStr ''pause'') t =
    t\<lparr>elapsedMs := jadd (elapsedMs t) (jsub (Fin now) (Date_parse P s)),
      startedAt := None, state := paused\<rparr>"
  using assms by (simp add: on_pause_def)

lemma sample_simps [simp]:
  "toISOString sample = sample_toISOString"
  "Date_parse sample = sample_Date_parse"
  "JSON_parse sample = sample_JSON_parse"
  by (simp_all add: sample_def)

text \<open>The five ways in which \<open>applyCommand\<close> returns a board.\<close>

lemma applyCommand_cases [consumes 1, case_names create command miss delete other]:
  assumes "applyCommand P now uuid b body = Inr b'"
  obtains
    n where "js_get body ''action'' = JStr ''create''"
      and "Number P (js_get (js_get body ''payload'') ''durationMs'') = Inr n"
      and "b' = b\<lparr>timers := timers b @
            [\<lparr>id_t = uuid,
              label = js_or (js_get (js_get body ''payload'') ''label'') (JStr ''Timer''),
              durationMs = (if truthy (JNum n) then n else Fin 0),
              state = idle,
              createdAt = toISOString P now,
              updatedAt = toISOString P now,
              startedAt = None,
              elapsedMs = Fin 0\<rparr>]\<rparr>"
  | i where "js_get body ''action'' = JStr ''command''"
      and "findIndex (\<lambda>t. JStr (id_t t) = js_get (js_get body ''payload'') ''id'') (timers b) = Some i"
      and "b' = b\<lparr>timers := (timers b)[i :=
            commanded P now (js_get (js_get body ''payload'') ''command'') (timers b ! i)]\<rparr>"
  | "js_get body ''action'' = JStr ''command''"
      and "findIndex (\<lambda>t. JStr (id_t t) = js_get (js_get body ''payload'') ''id'') (timers b) = None"
      and "b' = b"
  | "js_get body ''action'' = JStr ''delete''"
      and "b' = b\<lparr>timers := filter (\<lambda>t. JStr (id_t t) \<noteq> js_get (js_get body ''payload'') ''id'') (timers b)\<rparr>"
  | "js_get body ''action'' \<noteq> JStr ''create''"
      and "js_get body ''action'' \<noteq> JStr ''command''"
      and "js_get body ''action'' \<noteq> JStr ''delete''"
      and "b' = b"
proof (cases "js_get body ''action'' = JStr ''create''")
  case True
  show ?thesis
  proof (cases "Number P (js_get (js_get body ''payload'') ''durationMs'')")
    case (Inl e)
    with assms True show ?thesis
      by (simp add: applyCommand_def Let_def)
  next
    case (Inr n)
    show ?thesis
    proof (rule that(1) [OF True Inr])
      from assms True Inr show "b' = b\<lparr>timers := timers b @
            [\<lparr>id_t = uuid,
              label = js_or (js_get (js_get body ''payload'') ''label'') (JStr ''Timer''),
              durationMs = (if truthy (JNum n) then n else Fin 0),
              state = idle,
              createdAt = toISOString P now,
              updatedAt = toISOString P now,
              startedAt = None,
              elapsedMs = Fin 0\<rparr>]\<rparr>"
        by (simp add: applyCommand_def Let_def)
    qed
  qed
next
  case nc: False
  show ?thesis
  proof (cases "js_get body ''action'' = JStr ''command''")
    case True
    show ?thesis
    proof (cases "findIndex (\<lambda>t. JStr (id_t t) = js_get (js_get body ''payload'') ''id'') (timers b)")
      case None
      with assms True applyCommand_command_miss [OF True None, of P now uuid] show ?thesis
        by (intro that(3)) auto
    next
      case (Some i)
      with assms True applyCommand_command [OF True Some, of P now uuid] show ?thesis
        by (intro that(2)) auto
    qed
  next
    case ncm: False
    show ?thesis
    proof (cases "js_get body ''action'' = JStr ''delete''")
      case True
      with assms nc ncm show ?thesis
        by (intro that(4)) (auto simp: applyCommand_def Let_def)
    next
      case False
      with assms nc ncm show ?thesis
        by (intro that(5)) (auto simp: applyCommand_def Let_def)
    qed
  qed
qed

lemma jge_refl: "x \<noteq> NaN \<Longrightarrow> jge x x"
  by (cases x) simp_all

lemma on_start_fixed [simp]:
  "id_t (on_start ni c t) = id_t t"
  "durationMs (on_start ni c t) = durationMs t"
  "elapsedMs (on_start ni c t) = elapsedMs t"
  by (simp_all add: on_start_def)

lemma on_pause_fixed [simp]:
  "id_t (on_pause P now c t) = id_t t"
  "durationMs (on_pause P now c t) = durationMs t"
  by (simp_all add: on_pause_def Let_def split: option.split)

lemma on_reset_fixed [simp]:
  "id_t (on_reset c t) = id_t t"
  "durationMs (on_reset c t) = durationMs t"
  by (simp_all add: on_reset_def)

lemma autoFinish_fixed [simp]:
  "id_t (autoFinish P now t) = id_t t"
  "durationMs (autoFinish P now t) = durationMs t"
  by (simp_all add: autoFinish_def Let_def)

lemma commanded_fixed [simp]:
  "id_t (commanded P now c t) = id_t t"
  "durationMs (commanded P now c t) = durationMs t"
  "updatedAt (commanded P now c t) = toISOString P now"
  by (simp_all add: commanded_def)

text \<open>\<open>startedAt\<close> is set exactly on running timers: block by block.\<close>

lemma on_start_sr:
  "(startedAt t \<noteq> None) = (state t = running) \<Longrightarrow>
   (startedAt (on_start ni c t) \<noteq> None) = (state (on_start ni c t) = running)"
  by (simp add: on_start_def)

lemma on_pause_sr:
  "(startedAt t \<noteq> None) = (state t = running) \<Longrightarrow>
   (startedAt (on_pause P now c t) \<noteq> None) = (state (on_pause P now c t) = running)"
  by (auto simp: on_pause_def Let_def split: option.split)

lemma on_reset_sr:
  "(startedAt t \<noteq> None) = (state t = running) \<Longrightarrow>
   (startedAt (on_reset c t) \<noteq> None) = (state (on_reset c t) = running)"
  by (simp add: on_reset_def)

lemma autoFinish_sr:
  "(startedAt t \<noteq> None) = (state t = running) \<Longrightarrow>
   (startedAt (autoFinish P now t) \<noteq> None) = (state (autoFinish P now t) = running)"
  by (simp add: autoFinish_def Let_def)

lemma commanded_startedAt_iff_running:
  assumes "(startedAt t \<noteq> None) = (state t = running)"
  shows "(startedAt (commanded P now c t) \<noteq> None) = (state (commanded P now c t) = running)"
  using autoFinish_sr [OF on_reset_sr [OF on_pause_sr [OF on_start_sr [OF assms]]]]
  by (simp add: commanded_def)

text \<open>A finished timer passes the blocks unchanged unless the command is \<open>reset\<close>.\<close>

lemma on_start_finished: "state t = finished \<Longrightarrow> on_start ni c t = t"
  by (simp add: on_start_def)

lemma on_pause_finished: "state t = finished \<Longrightarrow> on_pause P now c t = t"
  by (simp add: on_pause_def split: option.split)

lemma on_reset_other: "c \<noteq> JStr ''reset'' \<Longrightarrow> on_reset c t = t"
  by (simp add: on_reset_def)

lemma autoFinish_finished: "state t = finished \<Longrightarrow> state (autoFinish P now t) = finished"
  by (simp add: autoFinish_def Let_def)

lemma commanded_finished_stays:
  assumes "state t = finished" and "c \<noteq> JStr ''reset''"
  shows "state (commanded P now c t) = finished"
  using assms
  by (simp add: commanded_def on_start_finished on_pause_finished on_reset_other
      autoFinish_finished)

text \<open>A timer that leaves the command branch finished has \<open>elapsedMs = durationMs\<close>.\<close>

lemma autoFinish_clamped:
  assumes "state (autoFinish P now t) = finished"
    and "state t = finished \<longrightarrow> elapsedMs t = durationMs t"
  shows "elapsedMs (autoFinish P now t) = durationMs t"
  using assms by (simp add: autoFinish_def Let_def split: if_splits)

lemma on_start_not_finished: "state t \<noteq> finished \<Longrightarrow> state (on_start ni c t) \<noteq> finished"
  by (simp add: on_start_def)

lemma on_pause_not_finished: "state t \<noteq> finished \<Longrightarrow> state (on_pause P now c t) \<noteq> finished"
  by (simp add: on_pause_def Let_def split: option.split)

lemma on_reset_not_finished: "state t \<noteq> finished \<Longrightarrow> state (on_reset c t) \<noteq> finished"
  by (simp add: on_reset_def)

lemma on_reset_not_finished': "c = JStr ''reset'' \<Longrightarrow> state (on_reset c t) \<noteq> finished"
  by (simp add: on_reset_def)

lemma blocks_keep_clamp:
  assumes "state t = finished \<longrightarrow> elapsedMs t = durationMs t"
  shows "state (on_reset c (on_pause P now c (on_start ni c t))) = finished \<longrightarrow>
         elapsedMs (on_reset c (on_pause P now c (on_start ni c t))) = durationMs t"
proof (cases "state t = finished")
  case True
  with assms show ?thesis
    by (cases "c = JStr ''reset''")
      (simp_all add: on_start_finished on_pause_finished on_reset_other on_reset_not_finished')
next
  case False
  from on_reset_not_finished [OF on_pause_not_finished [OF on_start_not_finished [OF False]]]
  show ?thesis by simp
qed

lemma commanded_finished_clamped:
  assumes "state (commanded P now c t) = finished"
    and "state t = finished \<longrightarrow> elapsedMs t = durationMs t"
  shows "elapsedMs (commanded P now c t) = durationMs t"
proof -
  let ?u = "on_reset c (on_pause P now c (on_start (toISOString P now) c t))"
  from assms(1) have "state (autoFinish P now ?u) = finished"
    by (simp add: commanded_def)
  from autoFinish_clamped [OF this] blocks_keep_clamp [OF assms(2), of c P now "toISOString P now"]
  show ?thesis by (simp add: commanded_def)
qed

lemma jle_refl: "x \<noteq> NaN \<Longrightarrow> jle x x"
  by (simp add: jle_def jge_refl)

lemma reachable_invariant:
  assumes "reachable P b"
  shows "\<forall>t\<in>set (timers b). durationMs t \<noteq> NaN \<and> (state t = finished \<longrightarrow> elapsedMs t = durationMs t)"
  using assms
proof (induction rule: reachable.induct)
  case (reachable_empty bid)
  show ?case by (simp add: emptyBoard_def)
next
  case (reachable_step b now uuid body b')
  from reachable_step.hyps(2) show ?case
  proof (cases rule: applyCommand_cases)
    case (create n)
    with reachable_step.IH show ?thesis by auto
  next
    case (command i)
    let ?c = "js_get (js_get body ''payload'') ''command''"
    from findIndex_Some [OF command(2)] have i: "i < length (timers b)" by simp
    then have "timers b ! i \<in> set (timers b)" by simp
    with reachable_step.IH have old: "durationMs (timers b ! i) \<noteq> NaN"
      "state (timers b ! i) = finished \<longrightarrow> elapsedMs (timers b ! i) = durationMs (timers b ! i)"
      by blast+
    have new: "durationMs (commanded P now ?c (timers b ! i)) \<noteq> NaN \<and>
      (state (commanded P now ?c (timers b ! i)) = finished \<longrightarrow>
       elapsedMs (commanded P now ?c (timers b ! i)) = durationMs (commanded P now ?c (timers b ! i)))"
      using old(1) commanded_finished_clamped [OF _ old(2), of P now ?c] by simp
    show ?thesis
    proof
      fix t assume "t \<in> set (timers b')"
      with command(3) have "t \<in> insert (commanded P now ?c (timers b ! i)) (set (timers b))"
        using set_update_subset_insert [of "timers b" i] by auto
      with reachable_step.IH new
      show "durationMs t \<noteq> NaN \<and> (state t = finished \<longrightarrow> elapsedMs t = durationMs t)"
        by blast
    qed
  next
    case miss
    with reachable_step.IH show ?thesis by simp
  next
    case delete
    with reachable_step.IH show ?thesis by simp
  next
    case other
    with reachable_step.IH show ?thesis by simp
  qed
qed

text \<open>A command whose id denotes the timer at position \<open>i\<close>.\<close>

lemma addressed_found:
  assumes "addressed b i" and "is_command body (JStr (id_t (timers b ! i))) c"
  shows "js_get body ''action'' = JStr ''command''"
    and "findIndex (\<lambda>t. JStr (id_t t) = js_get (js_get body ''payload'') ''id'') (timers b) = Some i"
    and "js_get (js_get body ''payload'') ''command'' = c"
  using assms findIndex_addressed [OF assms(1)] by (simp_all add: is_command_def)

lemma applyCommand_addressed:
  assumes "addressed b i" and "is_command body (JStr (id_t (timers b ! i))) c"
  shows "applyCommand P now uuid b body =
           Inr (b\<lparr>timers := (timers b)[i := commanded P now c (timers b ! i)]\<rparr>)"
  using applyCommand_command [OF addressed_found(1,2) [OF assms], of P now uuid]
    addressed_found(3) [OF assms] by simp

lemma addressed_after:
  assumes "addressed b i"
  shows "addressed (b\<lparr>timers := (timers b)[i := commanded P now c (timers b ! i)]\<rparr>) i"
  using assms by (auto simp: addressed_def nth_list_update)

lemma commanded_unknown:
  assumes "c \<noteq> JStr ''start''" "c \<noteq> JStr ''pause''" "c \<noteq> JStr ''reset''"
  shows "commanded P now c t = (autoFinish P now t)\<lparr>updatedAt := toISOString P now\<rparr>"
  using assms by (simp add: commanded_def on_start_def on_pause_def on_reset_def)

subsection \<open>The sample boards, step by step\<close>

lemmas sample_eval =
  applyCommand_def Let_def nullish_def js_or_def on_start_def on_pause_def on_reset_def
  autoFinish_def effectiveElapsed_def jsub_def command_body_def create_body_def
  sample_toISOString_def sample_Date_parse_def emptyBoard_def
  tea_def tea_board_def tea_running_def tea_running_board_def tea_finished_board_def
  plain_def plain_board_def pair_board_def delete_body_def

lemma sample_create:
  "applyCommand sample 0 ''t1'' (emptyBoard ''kitchen'')
     (create_body (JStr ''Tea'') (JNum (Fin 5000))) = Inr tea_board"
  by (simp add: sample_eval)

lemma sample_start:
  "applyCommand sample 0 ''u'' tea_board (command_body ''t1'' ''start'') = Inr tea_running_board"
  by (simp add: sample_eval)

lemma sample_start_late:
  "applyCommand sample 6000 ''u'' tea_running_board (command_body ''t1'' ''start'') =
     Inr tea_finished_board"
  by (simp add: sample_eval)

lemma sample_pause:
  "applyCommand sample 6000 ''u'' tea_running_board (command_body ''t1'' ''pause'') =
     Inr tea_finished_board"
  by (simp add: sample_eval)

lemma sample_snooze:
  "applyCommand sample 6000 ''u'' tea_running_board (command_body ''t1'' ''snooze'') =
     Inr tea_finished_board"
  by (simp add: sample_eval)

lemma sample_reset_plain:
  "applyCommand sample 0 ''u'' plain_board (command_body ''t0'' ''reset'') =
     Inr \<lparr>boardId = ''kitchen'', timers = [plain\<lparr>state := finished\<rparr>]\<rparr>"
  by (simp add: sample_eval)

lemma sample_create_negative:
  "applyCommand sample 0 ''t1'' (emptyBoard ''kitchen'')
     (create_body (JStr ''Tea'') (JNum (Fin (- 5)))) =
     Inr \<lparr>boardId = ''kitchen'', timers = [tea\<lparr>durationMs := Fin (- 5)\<rparr>]\<rparr>"
  by (simp add: sample_eval)

text \<open>
  A payload \<open>durationMs\<close> that is an object with an own property \<open>toString\<close>, such as
  \<open>{"toString": null}\<close>, makes \<open>Number\<close> throw: this \<open>create\<close> returns no board.
\<close>

lemma sample_create_raises:
  "applyCommand sample 0 ''t1'' (emptyBoard ''kitchen'')
     (create_body (JStr ''Tea'') (JObj [(''toString'', JNull)])) = Inl TypeError"
  by (simp add: sample_eval)

lemma sample_create_plain:
  "applyCommand sample 0 ''t0'' (emptyBoard ''kitchen'') (JObj [(''action'', JStr ''create'')]) =
     Inr plain_board"
  by (simp add: sample_eval)

lemma sample_create_pair:
  "applyCommand sample 0 ''t1'' plain_board (create_body (JStr ''Tea'') (JNum (Fin 5000))) =
     Inr pair_board"
  by (simp add: sample_eval)

lemma sample_start_pair:
  "applyCommand sample 0 ''u'' pair_board (command_body ''t1'' ''start'') =
     Inr \<lparr>boardId = ''kitchen'', timers = [plain, tea_running]\<rparr>"
  by (simp add: sample_eval)

lemma sample_delete_pair:
  "applyCommand sample 0 ''u'' pair_board (delete_body ''t0'') = Inr tea_board"
  by (simp add: sample_eval)

lemma sample_start_finished:
  "applyCommand sample 6000 ''u'' tea_finished_board (command_body ''t1'' ''start'') =
     Inr tea_finished_board"
  by (simp add: sample_eval)

section \<open>Pausing a timer that has run past its duration\<close>

text \<open>
  C1. Let \<open>t\<close> be a running timer of the board with \<open>startedAt\<close> set, the one its id
  denotes, and let \<open>elapsedMs + (now - Date.parse(startedAt)) >= durationMs\<close> at the
  instant \<open>now\<close> of the call. Then the command \<open>{id: t.id, command: "pause"}\<close> returns
  the board in which \<open>t\<close> is \<open>finished\<close> (not \<open>paused\<close>), with \<open>elapsedMs\<close> equal to
  \<open>durationMs\<close> and \<open>startedAt\<close> null; besides that only \<open>updatedAt\<close> of \<open>t\<close> changes.
\<close>

theorem pause_past_duration_finishes:
  assumes "addressed b i"
    and "state (timers b ! i) = running"
    and "startedAt (timers b ! i) = Some s" and "s \<noteq> []"
    and "jge (jadd (elapsedMs (timers b ! i)) (jsub (Fin now) (Date_parse P s)))
             (durationMs (timers b ! i))"
    and "is_command body (JStr (id_t (timers b ! i))) (JStr ''pause'')"
  shows "applyCommand P now uuid b body =
           Inr (b\<lparr>timers := (timers b)[i := (timers b ! i)
                  \<lparr>state := finished,
                   elapsedMs := durationMs (timers b ! i),
                   startedAt := None,
                   updatedAt := toISOString P now\<rparr>]\<rparr>)"
proof -
  let ?t = "timers b ! i"
  from assms(6) have act: "js_get body ''action'' = JStr ''command''"
    and ident: "js_get (js_get body ''payload'') ''id'' = JStr (id_t ?t)"
    and cmd: "js_get (js_get body ''payload'') ''command'' = JStr ''pause''"
    by (simp_all add: is_command_def)
  have found:
    "findIndex (\<lambda>t. JStr (id_t t) = js_get (js_get body ''payload'') ''id'') (timers b) = Some i"
    using findIndex_addressed [OF assms(1)] ident by simp
  have start: "on_start (toISOString P now) (JStr ''pause'') ?t = ?t"
    by (simp add: on_start_def)
  have fin: "autoFinish P now (on_reset (JStr ''pause'') (on_pause P now (JStr ''pause'') ?t)) =
      ?t\<lparr>elapsedMs := durationMs ?t, startedAt := None, state := finished\<rparr>"
    using assms(5)
    by (simp add: on_pause_running [OF assms(2,3,4)] on_reset_def autoFinish_def
        effectiveElapsed_def)
  show ?thesis
    unfolding applyCommand_command [OF act found] cmd commanded_def start fin
    by (cases ?t) simp
qed

text \<open>
  The scenario of the specification: started at 0 ms, paused 6000 ms later, 5000 ms long.
\<close>

theorem pause_past_duration_finishes_witness:
  "addressed tea_running_board 0 \<and>
   state (timers tea_running_board ! 0) = running \<and>
   startedAt (timers tea_running_board ! 0) = Some ''1970-01-01T00:00:00.000Z'' \<and>
   jge (jadd (elapsedMs (timers tea_running_board ! 0))
             (jsub (Fin 6000) (Date_parse sample ''1970-01-01T00:00:00.000Z'')))
       (durationMs (timers tea_running_board ! 0)) \<and>
   is_command (command_body ''t1'' ''pause'') (JStr ''t1'') (JStr ''pause'') \<and>
   applyCommand sample 6000 ''u'' tea_running_board (command_body ''t1'' ''pause'') =
     Inr \<lparr>boardId = ''kitchen'',
          timers = [tea\<lparr>state := finished, elapsedMs := Fin 5000, startedAt := None,
                        updatedAt := ''1970-01-01T00:00:06.000Z''\<rparr>]\<rparr>"
proof -
  have a: "addressed tea_running_board 0"
    by (simp add: addressed_def tea_running_board_def)
  have r: "state (timers tea_running_board ! 0) = running"
    by (simp add: tea_running_board_def tea_running_def)
  have s: "startedAt (timers tea_running_board ! 0) = Some ''1970-01-01T00:00:00.000Z''"
    by (simp add: tea_running_board_def tea_running_def)
  have n: "''1970-01-01T00:00:00.000Z'' \<noteq> []"
    by simp
  have g: "jge (jadd (elapsedMs (timers tea_running_board ! 0))
             (jsub (Fin 6000) (Date_parse sample ''1970-01-01T00:00:00.000Z'')))
       (durationMs (timers tea_running_board ! 0))"
    by (simp add: tea_running_board_def tea_running_def tea_def sample_Date_parse_def jsub_def)
  have c: "is_command (command_body ''t1'' ''pause'')
             (JStr (id_t (timers tea_running_board ! 0))) (JStr ''pause'')"
    by (simp add: is_command_def command_body_def tea_running_board_def tea_running_def tea_def)
  have c': "is_command (command_body ''t1'' ''pause'') (JStr ''t1'') (JStr ''pause'')"
    by (simp add: is_command_def command_body_def)
  show ?thesis
    using pause_past_duration_finishes [OF a r s n g c, of "''u''"] a r s g c'
    by (simp add: tea_running_board_def tea_running_def tea_def sample_toISOString_def)
qed

section \<open>\<open>startedAt\<close> is set exactly while running\<close>

text \<open>
  C2. If every timer of a board has \<open>startedAt\<close> non-null exactly when its state is
  \<open>running\<close>, then so has every timer of the board that \<open>applyCommand\<close> returns, for
  every body: create, command with any sub-command, delete, or anything else.
\<close>

theorem startedAt_iff_running_preserved:
  assumes inv: "\<forall>t\<in>set (timers b). (startedAt t \<noteq> None) = (state t = running)"
    and step: "applyCommand P now uuid b body = Inr b'"
  shows "\<forall>t\<in>set (timers b'). (startedAt t \<noteq> None) = (state t = running)"
  using step
proof (cases rule: applyCommand_cases)
  case (create n)
  with inv show ?thesis by simp
next
  case (command i)
  from findIndex_Some [OF command(2)] have i: "i < length (timers b)" by simp
  then have "timers b ! i \<in> set (timers b)" by simp
  with inv have "(startedAt (timers b ! i) \<noteq> None) = (state (timers b ! i) = running)"
    by blast
  note new = commanded_startedAt_iff_running [OF this, of P now "js_get (js_get body ''payload'') ''command''"]
  show ?thesis
  proof
    fix t assume "t \<in> set (timers b')"
    with command(3) have "t \<in> insert (commanded P now (js_get (js_get body ''payload'') ''command'') (timers b ! i)) (set (timers b))"
      using set_update_subset_insert [of "timers b" i] by auto
    with inv new show "(startedAt t \<noteq> None) = (state t = running)" by blast
  qed
next
  case miss
  with inv show ?thesis by simp
next
  case delete
  with inv show ?thesis by simp
next
  case other
  with inv show ?thesis by simp
qed

theorem startedAt_iff_running_preserved_witness:
  "(startedAt (timers tea_board ! 0) \<noteq> None) = (state (timers tea_board ! 0) = running) \<and>
   timers tea_board = [timers tea_board ! 0] \<and>
   applyCommand sample 0 ''u'' tea_board (command_body ''t1'' ''start'') = Inr tea_running_board \<and>
   startedAt (timers tea_running_board ! 0) \<noteq> None \<and>
   state (timers tea_running_board ! 0) = running"
proof -
  have one: "timers tea_board = [timers tea_board ! 0]"
    by (simp add: tea_board_def)
  have inv0: "(startedAt (timers tea_board ! 0) \<noteq> None) = (state (timers tea_board ! 0) = running)"
    by (simp add: tea_board_def tea_def)
  have inv: "\<forall>t\<in>set (timers tea_board). (startedAt t \<noteq> None) = (state t = running)"
    by (simp add: tea_board_def tea_def)
  have m: "timers tea_running_board ! 0 \<in> set (timers tea_running_board)"
    by (simp add: tea_running_board_def)
  have r: "state (timers tea_running_board ! 0) = running"
    by (simp add: tea_running_board_def tea_running_def)
  from startedAt_iff_running_preserved [OF inv sample_start] m r
  have "startedAt (timers tea_running_board ! 0) \<noteq> None"
    by blast
  with one inv0 sample_start r show ?thesis
    by blast
qed

section \<open>A finished timer is clamped to its duration\<close>

text \<open>
  C3. On every board reachable from an empty board, a finished timer has \<open>elapsedMs\<close>
  equal to \<open>durationMs\<close>, hence not exceeding it. The board after any further step is
  reachable as well, so the equality holds right after the step that finishes a timer
  and on every later board on which the timer is still finished, that is until it is
  reset or deleted.
\<close>

theorem finished_elapsed_clamped:
  assumes "reachable P b"
  shows "(\<forall>t\<in>set (timers b).
            state t = finished \<longrightarrow>
            elapsedMs t = durationMs t \<and> jle (elapsedMs t) (durationMs t)) \<and>
         (\<forall>now uuid body b'.
            applyCommand P now uuid b body = Inr b' \<longrightarrow>
            (\<forall>t\<in>set (timers b').
               state t = finished \<longrightarrow>
               elapsedMs t = durationMs t \<and> jle (elapsedMs t) (durationMs t)))"
proof -
  have *: "\<forall>t\<in>set (timers c).
            state t = finished \<longrightarrow>
            elapsedMs t = durationMs t \<and> jle (elapsedMs t) (durationMs t)"
    if "reachable P c" for c
    using reachable_invariant [OF that] by (auto simp: jle_refl)
  show ?thesis
  proof (intro conjI allI impI)
    show "\<forall>t\<in>set (timers b).
            state t = finished \<longrightarrow>
            elapsedMs t = durationMs t \<and> jle (elapsedMs t) (durationMs t)"
      by (rule * [OF assms])
  next
    fix now uuid body b'
    assume "applyCommand P now uuid b body = Inr b'"
    then have "reachable P b'" by (rule reachable_step [OF assms])
    then show "\<forall>t\<in>set (timers b').
            state t = finished \<longrightarrow>
            elapsedMs t = durationMs t \<and> jle (elapsedMs t) (durationMs t)"
      by (rule *)
  qed
qed

theorem finished_elapsed_clamped_witness:
  "reachable sample tea_running_board \<and>
   applyCommand sample 6000 ''u'' tea_running_board (command_body ''t1'' ''pause'') =
     Inr tea_finished_board \<and>
   state (timers tea_finished_board ! 0) = finished \<and>
   elapsedMs (timers tea_finished_board ! 0) = Fin 5000 \<and>
   durationMs (timers tea_finished_board ! 0) = Fin 5000 \<and>
   jle (elapsedMs (timers tea_finished_board ! 0)) (durationMs (timers tea_finished_board ! 0))"
proof -
  have r: "reachable sample tea_running_board"
    using reachable_step [OF reachable_step [OF reachable_empty sample_create] sample_start] .
  have m: "timers tea_finished_board ! 0 \<in> set (timers tea_finished_board)"
    by (simp add: tea_finished_board_def)
  have f: "state (timers tea_finished_board ! 0) = finished"
    by (simp add: tea_finished_board_def)
  from finished_elapsed_clamped [OF r] sample_pause m f
  have "jle (elapsedMs (timers tea_finished_board ! 0)) (durationMs (timers tea_finished_board ! 0))"
    by blast
  with r sample_pause f show ?thesis
    by (simp add: tea_finished_board_def tea_def)
qed

section \<open>No-ops\<close>

text \<open>
  C4, as stated, fails on a command whose sub-command is none of \<open>start\<close>, \<open>pause\<close>,
  \<open>reset\<close>: the auto-finish statement and the assignment to \<open>updatedAt\<close> follow the
  three \<open>if\<close> statements unconditionally. On the sample board a running timer, started
  at 0 ms and 5000 ms long, is finished by the command \<open>snooze\<close> at 6000 ms.
\<close>

theorem unknown_subcommand_counterexample:
  "is_command (command_body ''t1'' ''snooze'') (JStr ''t1'') (JStr ''snooze'') \<and>
   applyCommand sample 6000 ''u'' tea_running_board (command_body ''t1'' ''snooze'') =
     Inr tea_finished_board \<and>
   state (timers tea_running_board ! 0) = running \<and>
   state (timers tea_finished_board ! 0) = finished \<and>
   tea_finished_board \<noteq> tea_running_board"
  using sample_snooze
  by (simp add: is_command_def command_body_def tea_running_board_def tea_running_def
      tea_finished_board_def tea_def)

text \<open>
  C4, amended. \<open>applyCommand\<close> returns a board for every body whose action is not
  \<open>create\<close>. It returns the board unchanged for every body whose action is none of
  \<open>create\<close>, \<open>command\<close>, \<open>delete\<close>, and for every command whose payload id matches no
  timer. For a command with an unrecognized sub-command whose id denotes the timer at
  position \<open>i\<close>, all other timers are unchanged and that timer is put through the
  auto-finish rule and gets \<open>updatedAt = now\<close>; nothing else of it changes.
\<close>

theorem applyCommand_noops:
  "(js_get body ''action'' \<noteq> JStr ''create'' \<longrightarrow>
      (\<exists>b'. applyCommand P now uuid b body = Inr b')) \<and>
   (js_get body ''action'' \<noteq> JStr ''create'' \<and> js_get body ''action'' \<noteq> JStr ''command'' \<and>
    js_get body ''action'' \<noteq> JStr ''delete'' \<longrightarrow>
      applyCommand P now uuid b body = Inr b) \<and>
   (js_get body ''action'' = JStr ''command'' \<and>
    (\<forall>t\<in>set (timers b). JStr (id_t t) \<noteq> js_get (js_get body ''payload'') ''id'') \<longrightarrow>
      applyCommand P now uuid b body = Inr b) \<and>
   (addressed b i \<and> is_command body (JStr (id_t (timers b ! i))) c \<and>
    c \<noteq> JStr ''start'' \<and> c \<noteq> JStr ''pause'' \<and> c \<noteq> JStr ''reset'' \<longrightarrow>
      applyCommand P now uuid b body =
        Inr (b\<lparr>timers := (timers b)[i :=
          (autoFinish P now (timers b ! i))\<lparr>updatedAt := toISOString P now\<rparr>]\<rparr>))"
proof (intro conjI impI)
  assume nc: "js_get body ''action'' \<noteq> JStr ''create''"
  show "\<exists>b'. applyCommand P now uuid b body = Inr b'"
  proof (cases "js_get body ''action'' = JStr ''command''")
    case True
    show ?thesis
    proof (cases "findIndex (\<lambda>t. JStr (id_t t) = js_get (js_get body ''payload'') ''id'') (timers b)")
      case None
      from applyCommand_command_miss [OF True None] show ?thesis by blast
    next
      case (Some k)
      from applyCommand_command [OF True Some] show ?thesis by blast
    qed
  next
    case False
    with nc show ?thesis by (simp add: applyCommand_def Let_def)
  qed
next
  assume "js_get body ''action'' \<noteq> JStr ''create'' \<and> js_get body ''action'' \<noteq> JStr ''command'' \<and>
    js_get body ''action'' \<noteq> JStr ''delete''"
  then show "applyCommand P now uuid b body = Inr b"
    by (simp add: applyCommand_def Let_def)
next
  assume h: "js_get body ''action'' = JStr ''command'' \<and>
    (\<forall>t\<in>set (timers b). JStr (id_t t) \<noteq> js_get (js_get body ''payload'') ''id'')"
  then have "findIndex (\<lambda>t. JStr (id_t t) = js_get (js_get body ''payload'') ''id'') (timers b) = None"
    by (simp add: findIndex_None)
  with h show "applyCommand P now uuid b body = Inr b"
    by (simp add: applyCommand_command_miss)
next
  assume h: "addressed b i \<and> is_command body (JStr (id_t (timers b ! i))) c \<and>
    c \<noteq> JStr ''start'' \<and> c \<noteq> JStr ''pause'' \<and> c \<noteq> JStr ''reset''"
  then have a: "addressed b i" and ic: "is_command body (JStr (id_t (timers b ! i))) c"
    and u: "c \<noteq> JStr ''start''" "c \<noteq> JStr ''pause''" "c \<noteq> JStr ''reset''"
    by simp_all
  show "applyCommand P now uuid b body =
        Inr (b\<lparr>timers := (timers b)[i :=
          (autoFinish P now (timers b ! i))\<lparr>updatedAt := toISOString P now\<rparr>]\<rparr>)"
    by (simp add: applyCommand_addressed [OF a ic] commanded_unknown [OF u])
qed

theorem applyCommand_noops_witness:
  "js_get (JStr ''ping'') ''action'' \<noteq> JStr ''create'' \<and>
   js_get (JStr ''ping'') ''action'' \<noteq> JStr ''command'' \<and>
   js_get (JStr ''ping'') ''action'' \<noteq> JStr ''delete'' \<and>
   applyCommand sample 6000 ''u'' tea_running_board (JStr ''ping'') = Inr tea_running_board \<and>
   js_get (command_body ''t9'' ''start'') ''action'' = JStr ''command'' \<and>
   js_get (js_get (command_body ''t9'' ''start'') ''payload'') ''id'' = JStr ''t9'' \<and>
   map id_t (timers tea_running_board) = [''t1''] \<and>
   applyCommand sample 6000 ''u'' tea_running_board (command_body ''t9'' ''start'') =
     Inr tea_running_board \<and>
   addressed tea_running_board 0 \<and>
   is_command (command_body ''t1'' ''snooze'') (JStr ''t1'') (JStr ''snooze'') \<and>
   applyCommand sample 6000 ''u'' tea_running_board (command_body ''t1'' ''snooze'') =
     Inr (tea_running_board\<lparr>timers := (timers tea_running_board)[0 :=
       (autoFinish sample 6000 (timers tea_running_board ! 0))
         \<lparr>updatedAt := ''1970-01-01T00:00:06.000Z''\<rparr>]\<rparr>)"
proof -
  have p: "js_get (JStr ''ping'') ''action'' \<noteq> JStr ''create'' \<and>
      js_get (JStr ''ping'') ''action'' \<noteq> JStr ''command'' \<and>
      js_get (JStr ''ping'') ''action'' \<noteq> JStr ''delete''"
    by simp
  have m: "js_get (command_body ''t9'' ''start'') ''action'' = JStr ''command'' \<and>
      (\<forall>t\<in>set (timers tea_running_board).
        JStr (id_t t) \<noteq> js_get (js_get (command_body ''t9'' ''start'') ''payload'') ''id'')"
    by (simp add: command_body_def tea_running_board_def tea_running_def tea_def)
  have a: "addressed tea_running_board 0"
    by (simp add: addressed_def tea_running_board_def)
  have c: "is_command (command_body ''t1'' ''snooze'')
             (JStr (id_t (timers tea_running_board ! 0))) (JStr ''snooze'')"
    by (simp add: is_command_def command_body_def tea_running_board_def tea_running_def tea_def)
  have c': "is_command (command_body ''t1'' ''snooze'') (JStr ''t1'') (JStr ''snooze'')"
    by (simp add: is_command_def command_body_def)
  have u: "JStr ''snooze'' \<noteq> JStr ''start'' \<and> JStr ''snooze'' \<noteq> JStr ''pause'' \<and>
      JStr ''snooze'' \<noteq> JStr ''reset''"
    by simp
  note n1 = applyCommand_noops [of "JStr ''ping''" sample 6000 "''u''" tea_running_board]
  note n2 = applyCommand_noops [of "command_body ''t9'' ''start''" sample 6000 "''u''"
      tea_running_board]
  note n3 = applyCommand_noops [of "command_body ''t1'' ''snooze''" sample 6000 "''u''"
      tea_running_board 0 "JStr ''snooze''"]
  from n1 p have r1: "applyCommand sample 6000 ''u'' tea_running_board (JStr ''ping'') =
      Inr tea_running_board"
    by blast
  from n2 m have r2: "applyCommand sample 6000 ''u'' tea_running_board
      (command_body ''t9'' ''start'') = Inr tea_running_board"
    by blast
  from n3 a c u have r3: "applyCommand sample 6000 ''u'' tea_running_board
      (command_body ''t1'' ''snooze'') =
     Inr (tea_running_board\<lparr>timers := (timers tea_running_board)[0 :=
       (autoFinish sample 6000 (timers tea_running_board ! 0))
         \<lparr>updatedAt := toISOString sample 6000\<rparr>]\<rparr>)"
    by blast
  from r3 have r3': "applyCommand sample 6000 ''u'' tea_running_board
      (command_body ''t1'' ''snooze'') =
     Inr (tea_running_board\<lparr>timers := (timers tea_running_board)[0 :=
       (autoFinish sample 6000 (timers tea_running_board ! 0))
         \<lparr>updatedAt := ''1970-01-01T00:00:06.000Z''\<rparr>]\<rparr>)"
    by (simp add: sample_toISOString_def)
  have m1: "js_get (command_body ''t9'' ''start'') ''action'' = JStr ''command''"
    and m2: "js_get (js_get (command_body ''t9'' ''start'') ''payload'') ''id'' = JStr ''t9''"
    and m3: "map id_t (timers tea_running_board) = [''t1'']"
    by (simp_all add: command_body_def tea_running_board_def tea_running_def tea_def)
  from p m1 m2 m3 a c' r1 r2 r3' show ?thesis by blast
qed

section \<open>Reset\<close>

text \<open>
  C5, as stated, fails for a timer whose \<open>durationMs\<close> is 0, which is what \<open>create\<close>
  stores when the payload has none: after the reset block the auto-finish statement
  finds \<open>0 >= 0\<close> and the timer ends \<open>finished\<close>, not \<open>idle\<close>.
\<close>

theorem reset_plain_counterexample:
  "addressed plain_board 0 \<and>
   applyCommand sample 0 ''u'' plain_board (command_body ''t0'' ''reset'') =
     Inr \<lparr>boardId = ''kitchen'', timers = [plain\<lparr>state := finished\<rparr>]\<rparr> \<and>
   state (plain\<lparr>state := finished\<rparr>) \<noteq> idle"
  using sample_reset_plain by (simp add: addressed_def plain_board_def)

text \<open>
  C5, amended. For every board and every timer \<open>t\<close> of it that its id denotes, whatever
  its prior state, the command \<open>{id: t.id, command: "reset"}\<close> yields \<open>startedAt = null\<close>
  and, when \<open>0 >= durationMs\<close> does not hold, \<open>state = idle\<close> and \<open>elapsedMs = 0\<close>; when
  \<open>0 >= durationMs\<close> holds, the auto-finish rule makes it \<open>finished\<close> with
  \<open>elapsedMs = durationMs\<close>. Besides that only \<open>updatedAt\<close> changes.
\<close>

theorem reset_rewinds:
  assumes "addressed b i"
    and "is_command body (JStr (id_t (timers b ! i))) (JStr ''reset'')"
  shows "applyCommand P now uuid b body =
           Inr (b\<lparr>timers := (timers b)[i :=
             (if jge (Fin 0) (durationMs (timers b ! i)) then
                (timers b ! i)\<lparr>state := finished, elapsedMs := durationMs (timers b ! i),
                               startedAt := None, updatedAt := toISOString P now\<rparr>
              else
                (timers b ! i)\<lparr>state := idle, elapsedMs := Fin 0,
                               startedAt := None, updatedAt := toISOString P now\<rparr>)]\<rparr>)"
proof -
  let ?t = "timers b ! i"
  have "commanded P now (JStr ''reset'') ?t =
     (if jge (Fin 0) (durationMs ?t) then
        ?t\<lparr>state := finished, elapsedMs := durationMs ?t,
           startedAt := None, updatedAt := toISOString P now\<rparr>
      else ?t\<lparr>state := idle, elapsedMs := Fin 0,
           startedAt := None, updatedAt := toISOString P now\<rparr>)"
    by (cases ?t)
      (simp add: commanded_def on_start_def on_pause_def on_reset_def autoFinish_def
        effectiveElapsed_def)
  with applyCommand_addressed [OF assms, of P now uuid] show ?thesis by simp
qed

theorem reset_rewinds_witness:
  "addressed tea_finished_board 0 \<and>
   is_command (command_body ''t1'' ''reset'') (JStr ''t1'') (JStr ''reset'') \<and>
   \<not> jge (Fin 0) (durationMs (timers tea_finished_board ! 0)) \<and>
   applyCommand sample 6000 ''u'' tea_finished_board (command_body ''t1'' ''reset'') =
     Inr \<lparr>boardId = ''kitchen'',
          timers = [tea\<lparr>updatedAt := ''1970-01-01T00:00:06.000Z''\<rparr>]\<rparr>"
proof -
  have a: "addressed tea_finished_board 0"
    by (simp add: addressed_def tea_finished_board_def)
  have c: "is_command (command_body ''t1'' ''reset'')
             (JStr (id_t (timers tea_finished_board ! 0))) (JStr ''reset'')"
    by (simp add: is_command_def command_body_def tea_finished_board_def tea_def)
  have c': "is_command (command_body ''t1'' ''reset'') (JStr ''t1'') (JStr ''reset'')"
    by (simp add: is_command_def command_body_def)
  show ?thesis
    using reset_rewinds [OF a c, of sample 6000 "''u''"] a c'
    by (simp add: tea_finished_board_def tea_def sample_toISOString_def)
qed

section \<open>Starting twice\<close>

text \<open>
  C6, as stated, fails when the timer has run past its duration by the second \<open>start\<close>:
  the start block does nothing on a running timer, but the auto-finish statement that
  follows finishes it and clears \<open>startedAt\<close>. Started at 0 ms and again at 6000 ms, the
  5000 ms timer is \<open>finished\<close> with \<open>startedAt\<close> null.
\<close>

theorem start_twice_counterexample:
  "applyCommand sample 0 ''u'' tea_board (command_body ''t1'' ''start'') = Inr tea_running_board \<and>
   applyCommand sample 6000 ''u'' tea_running_board (command_body ''t1'' ''start'') =
     Inr tea_finished_board \<and>
   state (timers tea_running_board ! 0) = running \<and>
   startedAt (timers tea_running_board ! 0) = Some ''1970-01-01T00:00:00.000Z'' \<and>
   state (timers tea_finished_board ! 0) = finished \<and>
   startedAt (timers tea_finished_board ! 0) = None"
  using sample_start sample_start_late
  by (simp add: tea_running_board_def tea_running_def tea_finished_board_def tea_def)

text \<open>
  C6, amended. Let a timer, the one its id denotes, be \<open>running\<close> after a first \<open>start\<close>
  command. A second \<open>start\<close>, with no command in between, at an instant at which its
  effective elapsed time is still below \<open>durationMs\<close> leaves \<open>state = running\<close> and
  \<open>startedAt\<close> as the first start left it (only \<open>updatedAt\<close> changes); once the effective
  elapsed time has reached \<open>durationMs\<close>, the second start finishes the timer instead,
  with \<open>startedAt\<close> null and \<open>elapsedMs = durationMs\<close>.
\<close>

theorem start_twice_before_due:
  assumes "addressed b i"
    and "is_command body1 (JStr (id_t (timers b ! i))) (JStr ''start'')"
    and "is_command body2 (JStr (id_t (timers b ! i))) (JStr ''start'')"
    and "applyCommand P now1 uuid1 b body1 = Inr b1"
    and "state (timers b1 ! i) = running"
  shows "applyCommand P now2 uuid2 b1 body2 =
           Inr (b1\<lparr>timers := (timers b1)[i :=
             (if jge (effectiveElapsed P (timers b1 ! i) now2) (durationMs (timers b1 ! i)) then
                (timers b1 ! i)\<lparr>state := finished, startedAt := None,
                                elapsedMs := durationMs (timers b1 ! i),
                                updatedAt := toISOString P now2\<rparr>
              else (timers b1 ! i)\<lparr>updatedAt := toISOString P now2\<rparr>)]\<rparr>)"
proof -
  from assms(1) have i: "i < length (timers b)" by (simp add: addressed_def)
  from applyCommand_addressed [OF assms(1,2), of P now1 uuid1] assms(4)
  have b1: "b1 = b\<lparr>timers := (timers b)[i := commanded P now1 (JStr ''start'') (timers b ! i)]\<rparr>"
    by simp
  then have a1: "addressed b1 i"
    using addressed_after [OF assms(1)] by simp
  from b1 i have "id_t (timers b1 ! i) = id_t (timers b ! i)" by simp
  with assms(3) have c2: "is_command body2 (JStr (id_t (timers b1 ! i))) (JStr ''start'')"
    by simp
  let ?t = "timers b1 ! i"
  from assms(5) have "commanded P now2 (JStr ''start'') ?t =
     (if jge (effectiveElapsed P ?t now2) (durationMs ?t) then
        ?t\<lparr>state := finished, startedAt := None, elapsedMs := durationMs ?t,
           updatedAt := toISOString P now2\<rparr>
      else ?t\<lparr>updatedAt := toISOString P now2\<rparr>)"
    by (simp add: commanded_def on_start_def on_pause_def on_reset_def autoFinish_def Let_def)
  with applyCommand_addressed [OF a1 c2, of P now2 uuid2] show ?thesis by simp
qed

theorem start_twice_before_due_witness:
  "addressed tea_board 0 \<and>
   is_command (command_body ''t1'' ''start'') (JStr ''t1'') (JStr ''start'') \<and>
   applyCommand sample 0 ''u'' tea_board (command_body ''t1'' ''start'') = Inr tea_running_board \<and>
   state (timers tea_running_board ! 0) = running \<and>
   \<not> jge (effectiveElapsed sample (timers tea_running_board ! 0) 2000)
         (durationMs (timers tea_running_board ! 0)) \<and>
   applyCommand sample 2000 ''u'' tea_running_board (command_body ''t1'' ''start'') =
     Inr \<lparr>boardId = ''kitchen'',
          timers = [tea_running\<lparr>updatedAt := ''1970-01-01T00:00:02.000Z''\<rparr>]\<rparr>"
proof -
  have a: "addressed tea_board 0"
    by (simp add: addressed_def tea_board_def)
  have c: "is_command (command_body ''t1'' ''start'')
             (JStr (id_t (timers tea_board ! 0))) (JStr ''start'')"
    by (simp add: is_command_def command_body_def tea_board_def tea_def)
  have c': "is_command (command_body ''t1'' ''start'') (JStr ''t1'') (JStr ''start'')"
    by (simp add: is_command_def command_body_def)
  have r: "state (timers tea_running_board ! 0) = running"
    by (simp add: tea_running_board_def tea_running_def)
  have e: "\<not> jge (effectiveElapsed sample (timers tea_running_board ! 0) 2000)
         (durationMs (timers tea_running_board ! 0))"
    by (simp add: tea_running_board_def tea_running_def tea_def effectiveElapsed_def
        sample_Date_parse_def jsub_def)
  show ?thesis
    using start_twice_before_due [OF a c c sample_start r, of 2000 "''u''"] a c' sample_start r e
    by (simp add: tea_running_board_def tea_running_def tea_def sample_toISOString_def)
qed

section \<open>Entering and leaving the finished state\<close>

text \<open>
  C7. A \<open>create\<close> action appends a timer in state \<open>idle\<close>, whatever its \<open>durationMs\<close>, and
  changes no other timer. A timer that is \<open>finished\<close> is still at its position and
  \<open>finished\<close> after every step that is neither a \<open>delete\<close> nor a command with its id and
  sub-command \<open>reset\<close>; after a \<open>delete\<close> with another id it is still on the board,
  unchanged.
\<close>

theorem finished_entered_and_left:
  assumes step: "applyCommand P now uuid b body = Inr b'"
  shows "(js_get body ''action'' = JStr ''create'' \<longrightarrow>
            (\<exists>t. timers b' = timers b @ [t] \<and> state t = idle)) \<and>
         (js_get body ''action'' \<noteq> JStr ''delete'' \<longrightarrow>
            (\<forall>i<length (timers b).
               state (timers b ! i) = finished \<and>
               \<not> is_command body (JStr (id_t (timers b ! i))) (JStr ''reset'') \<longrightarrow>
               i < length (timers b') \<and> id_t (timers b' ! i) = id_t (timers b ! i) \<and>
               state (timers b' ! i) = finished)) \<and>
         (js_get body ''action'' = JStr ''delete'' \<longrightarrow>
            (\<forall>t\<in>set (timers b).
               state t = finished \<and> JStr (id_t t) \<noteq> js_get (js_get body ''payload'') ''id'' \<longrightarrow>
               t \<in> set (timers b')))"
  using step
proof (cases rule: applyCommand_cases)
  case (create n)
  then show ?thesis by (simp add: nth_append)
next
  case (command i)
  let ?c = "js_get (js_get body ''payload'') ''command''"
  from findIndex_Some [OF command(2)]
  have i: "i < length (timers b)"
    and ident: "JStr (id_t (timers b ! i)) = js_get (js_get body ''payload'') ''id''" by simp_all
  have "state (timers b' ! k) = finished \<and> id_t (timers b' ! k) = id_t (timers b ! k)"
    if k: "k < length (timers b)" and fin: "state (timers b ! k) = finished"
      and nr: "\<not> is_command body (JStr (id_t (timers b ! k))) (JStr ''reset'')" for k
  proof (cases "k = i")
    case True
    with nr ident command(1) have "?c \<noteq> JStr ''reset''"
      by (auto simp: is_command_def)
    from commanded_finished_stays [OF _ this, of "timers b ! i" P now] fin True i command(3)
    show ?thesis by simp
  next
    case False
    with command(3) fin k show ?thesis by simp
  qed
  with command(1,3) show ?thesis by simp
next
  case miss
  then show ?thesis by simp
next
  case delete
  then show ?thesis by simp
next
  case other
  then show ?thesis by simp
qed

theorem finished_entered_and_left_witness:
  "applyCommand sample 0 ''t0'' (emptyBoard ''kitchen'') (JObj [(''action'', JStr ''create'')]) =
     Inr plain_board \<and>
   durationMs (last (timers plain_board)) = Fin 0 \<and>
   state (last (timers plain_board)) = idle \<and>
   applyCommand sample 6000 ''u'' tea_finished_board (command_body ''t1'' ''start'') =
     Inr tea_finished_board \<and>
   state (timers tea_finished_board ! 0) = finished \<and>
   \<not> is_command (command_body ''t1'' ''start'')
        (JStr (id_t (timers tea_finished_board ! 0))) (JStr ''reset'') \<and>
   applyCommand sample 0 ''u'' pair_board (delete_body ''t0'') = Inr tea_board"
proof -
  have a: "js_get (JObj [(''action'', JStr ''create'')]) ''action'' = JStr ''create''"
    by simp
  from finished_entered_and_left [OF sample_create_plain] a
  obtain t where "timers plain_board = timers (emptyBoard ''kitchen'') @ [t]" "state t = idle"
    by blast
  then have i: "state (last (timers plain_board)) = idle"
    by simp
  have d: "durationMs (last (timers plain_board)) = Fin 0"
    by (simp add: plain_board_def plain_def)
  have f: "state (timers tea_finished_board ! 0) = finished"
    by (simp add: tea_finished_board_def)
  have n: "\<not> is_command (command_body ''t1'' ''start'')
        (JStr (id_t (timers tea_finished_board ! 0))) (JStr ''reset'')"
    by (simp add: is_command_def command_body_def)
  have nd: "js_get (command_body ''t1'' ''start'') ''action'' \<noteq> JStr ''delete''"
    by (simp add: command_body_def)
  have l: "0 < length (timers tea_finished_board)"
    by (simp add: tea_finished_board_def)
  from finished_entered_and_left [OF sample_start_finished] nd l f n
  have "state (timers tea_finished_board ! 0) = finished"
    by blast
  with sample_create_plain d i sample_start_finished n sample_delete_pair show ?thesis
    by simp
qed

section \<open>The duration of a created timer\<close>

text \<open>
  C8, as stated, fails on a negative number: \<open>Number(durationMs) || 0\<close> replaces only
  \<open>NaN\<close> and zero, so a payload \<open>durationMs\<close> of \<open>-5\<close> is stored as \<open>-5\<close>.
\<close>

theorem create_negative_counterexample:
  "js_get (create_body (JStr ''Tea'') (JNum (Fin (- 5)))) ''action'' = JStr ''create'' \<and>
   applyCommand sample 0 ''t1'' (emptyBoard ''kitchen'')
     (create_body (JStr ''Tea'') (JNum (Fin (- 5)))) =
     Inr \<lparr>boardId = ''kitchen'', timers = [tea\<lparr>durationMs := Fin (- 5)\<rparr>]\<rparr> \<and>
   durationMs (tea\<lparr>durationMs := Fin (- 5)\<rparr>) = Fin (- 5) \<and>
   \<not> jge (Fin (- 5)) (Fin 0)"
  using sample_create_negative by (simp add: create_body_def)

text \<open>
  C8, amended. For every \<open>create\<close> action that returns, the \<open>durationMs\<close> of the appended
  timer is \<open>Number(payload.durationMs)\<close>, with \<open>NaN\<close> replaced by 0: it is never \<open>NaN\<close>,
  and it is non-negative whenever \<open>Number(payload.durationMs)\<close> is \<open>NaN\<close> or
  non-negative. A negative number is stored as it is.
\<close>

theorem create_duration:
  assumes "js_get body ''action'' = JStr ''create''"
    and "applyCommand P now uuid b body = Inr b'"
  shows "\<exists>n. Number P (js_get (js_get body ''payload'') ''durationMs'') = Inr n \<and>
           timers b' = timers b @ [last (timers b')] \<and>
           durationMs (last (timers b')) = (if n = NaN then Fin 0 else n) \<and>
           durationMs (last (timers b')) \<noteq> NaN \<and>
           (n = NaN \<or> jge n (Fin 0) \<longrightarrow> jge (durationMs (last (timers b'))) (Fin 0))"
  using assms(2)
proof (cases rule: applyCommand_cases)
  case (create n)
  show ?thesis
  proof (intro exI [of _ n] conjI)
    show "Number P (js_get (js_get body ''payload'') ''durationMs'') = Inr n"
      by (rule create(2))
    show "timers b' = timers b @ [last (timers b')]"
      using create(3) by simp
    show "durationMs (last (timers b')) = (if n = NaN then Fin 0 else n)"
      using create(3) by simp
    show "durationMs (last (timers b')) \<noteq> NaN"
      using create(3) by simp
    show "n = NaN \<or> jge n (Fin 0) \<longrightarrow> jge (durationMs (last (timers b'))) (Fin 0)"
      using create(3) by auto
  qed
qed (use assms(1) in simp_all)

theorem create_duration_witness:
  "js_get (create_body (JStr ''Tea'') (JNum (Fin 5000))) ''action'' = JStr ''create'' \<and>
   applyCommand sample 0 ''t1'' (emptyBoard ''kitchen'')
     (create_body (JStr ''Tea'') (JNum (Fin 5000))) = Inr tea_board \<and>
   Number sample (js_get (js_get (create_body (JStr ''Tea'') (JNum (Fin 5000))) ''payload'')
     ''durationMs'') = Inr (Fin 5000) \<and>
   durationMs (last (timers tea_board)) = Fin 5000"
proof -
  have a: "js_get (create_body (JStr ''Tea'') (JNum (Fin 5000))) ''action'' = JStr ''create''"
    by (simp add: create_body_def)
  have n: "Number sample (js_get (js_get (create_body (JStr ''Tea'') (JNum (Fin 5000)))
     ''payload'') ''durationMs'') = Inr (Fin 5000)"
    by (simp add: create_body_def)
  from create_duration [OF a sample_create] n
  have "durationMs (last (timers tea_board)) = Fin 5000"
    by auto
  with a n sample_create show ?thesis by simp
qed

section \<open>What a step leaves alone\<close>

text \<open>
  C10. The board that \<open>applyCommand\<close> returns has the \<open>boardId\<close> of the input. After a
  command with payload id \<open>X\<close> the board has as many timers as before and every timer
  whose id differs from \<open>X\<close> is unchanged. After a \<open>create\<close> the timers are the former
  ones followed by one new timer. After a \<open>delete\<close> with payload id \<open>X\<close> the timers are
  the former ones whose id differs from \<open>X\<close>, unchanged and in their former order.
\<close>

theorem applyCommand_frame:
  assumes step: "applyCommand P now uuid b body = Inr b'"
  shows "boardId b' = boardId b \<and>
    (js_get body ''action'' = JStr ''command'' \<longrightarrow>
       length (timers b') = length (timers b) \<and>
       (\<forall>j<length (timers b).
          JStr (id_t (timers b ! j)) \<noteq> js_get (js_get body ''payload'') ''id'' \<longrightarrow>
          timers b' ! j = timers b ! j)) \<and>
    (js_get body ''action'' = JStr ''create'' \<longrightarrow>
       (\<exists>t. timers b' = timers b @ [t])) \<and>
    (js_get body ''action'' = JStr ''delete'' \<longrightarrow>
       timers b' =
         filter (\<lambda>t. JStr (id_t t) \<noteq> js_get (js_get body ''payload'') ''id'') (timers b))"
  using step
proof (cases rule: applyCommand_cases)
  case (create n)
  then show ?thesis by simp
next
  case (command i)
  from findIndex_Some [OF command(2)]
  have "JStr (id_t (timers b ! i)) = js_get (js_get body ''payload'') ''id''" by simp
  then have "\<forall>j<length (timers b).
          JStr (id_t (timers b ! j)) \<noteq> js_get (js_get body ''payload'') ''id'' \<longrightarrow> j \<noteq> i"
    by auto
  with command(1,3) show ?thesis by (auto simp: nth_list_update)
next
  case miss
  then show ?thesis by simp
next
  case delete
  then show ?thesis by simp
next
  case other
  then show ?thesis by simp
qed

theorem applyCommand_frame_witness:
  "applyCommand sample 0 ''t1'' plain_board (create_body (JStr ''Tea'') (JNum (Fin 5000))) =
     Inr pair_board \<and>
   boardId pair_board = boardId plain_board \<and>
   butlast (timers pair_board) = timers plain_board \<and>
   applyCommand sample 0 ''u'' pair_board (command_body ''t1'' ''start'') =
     Inr \<lparr>boardId = ''kitchen'', timers = [plain, tea_running]\<rparr> \<and>
   JStr (id_t (timers pair_board ! 0)) \<noteq>
     js_get (js_get (command_body ''t1'' ''start'') ''payload'') ''id'' \<and>
   [plain, tea_running] ! 0 = timers pair_board ! 0 \<and>
   applyCommand sample 0 ''u'' pair_board (delete_body ''t0'') = Inr tea_board \<and>
   timers tea_board = [tea]"
proof -
  have a1: "js_get (create_body (JStr ''Tea'') (JNum (Fin 5000))) ''action'' = JStr ''create''"
    by (simp add: create_body_def)
  from applyCommand_frame [OF sample_create_pair] a1
  obtain t where bid: "boardId pair_board = boardId plain_board"
    and app: "timers pair_board = timers plain_board @ [t]"
    by blast
  from app have bl: "butlast (timers pair_board) = timers plain_board"
    by simp
  have a2: "js_get (command_body ''t1'' ''start'') ''action'' = JStr ''command''"
    by (simp add: command_body_def)
  have l: "0 < length (timers pair_board)"
    by (simp add: pair_board_def)
  have o: "JStr (id_t (timers pair_board ! 0)) \<noteq>
     js_get (js_get (command_body ''t1'' ''start'') ''payload'') ''id''"
    by (simp add: pair_board_def plain_def command_body_def)
  from applyCommand_frame [OF sample_start_pair] a2 l o
  have same: "timers \<lparr>boardId = ''kitchen'', timers = [plain, tea_running]\<rparr> ! 0 =
      timers pair_board ! 0"
    by blast
  have a3: "js_get (delete_body ''t0'') ''action'' = JStr ''delete''"
    by (simp add: delete_body_def)
  from applyCommand_frame [OF sample_delete_pair] a3
  have "timers tea_board =
      filter (\<lambda>t. JStr (id_t t) \<noteq> js_get (js_get (delete_body ''t0'') ''payload'') ''id'')
        (timers pair_board)"
    by blast
  then have del: "timers tea_board = [tea]"
    by (simp add: tea_board_def)
  from sample_create_pair bid bl sample_start_pair o same sample_delete_pair del show ?thesis
    by simp
qed

section \<open>Loading a board\<close>

text \<open>
  C9. When the store holds nothing under the key \<open>"board:" + boardId\<close>, or holds a string
  that \<open>JSON.parse\<close> rejects, \<open>loadBoard\<close> resolves to the empty board
  \<open>{boardId, timers: []}\<close>: it returns a value, no error.
\<close>

theorem loadBoard_missing_or_unparseable:
  assumes "kv_get (''board:'' @ bid) = Inr None \<or>
           (\<exists>raw. kv_get (''board:'' @ bid) = Inr (Some raw) \<and> JSON_parse P raw = None)"
  shows "loadBoard P kv_get bid = Inr (Fresh \<lparr>boardId = bid, timers = []\<rparr>)"
  using assms by (auto simp: loadBoard_def boardKey_def emptyBoard_def)

theorem loadBoard_missing_or_unparseable_witness:
  "loadBoard sample (\<lambda>k. Inr None) ''kitchen'' =
     Inr (Fresh \<lparr>boardId = ''kitchen'', timers = []\<rparr>) \<and>
   loadBoard sample (\<lambda>k. Inr (Some ''{oops'')) ''kitchen'' =
     Inr (Fresh \<lparr>boardId = ''kitchen'', timers = []\<rparr>)"
proof -
  have a: "(\<lambda>k. Inr None :: error + string option) (''board:'' @ ''kitchen'') = Inr None \<or>
           (\<exists>raw. (\<lambda>k. Inr None :: error + string option) (''board:'' @ ''kitchen'') =
                     Inr (Some raw) \<and> JSON_parse sample raw = None)"
    by simp
  have b: "(\<lambda>k. Inr (Some ''{oops'') :: error + string option) (''board:'' @ ''kitchen'') =
             Inr None \<or>
           (\<exists>raw. (\<lambda>k. Inr (Some ''{oops'') :: error + string option) (''board:'' @ ''kitchen'') =
                     Inr (Some raw) \<and> JSON_parse sample raw = None)"
    by (simp add: sample_JSON_parse_def)
  show ?thesis
    using loadBoard_missing_or_unparseable [OF a] loadBoard_missing_or_unparseable [OF b]
    by simp
qed

end
